theory Spec2Isabelle
  imports Main
begin

section \<open>PieLogLevel\<close>

text \<open>
  The static numeric constants of class \<open>PieLogLevel\<close>. A level is a JavaScript number;
  the model takes the integers (the declared levels and every other whole number a caller
  may pass).
\<close>

definition DEBUG :: int where "DEBUG = 10"
definition INFO :: int where "INFO = 20"
definition WARNING :: int where "WARNING = 30"
definition ERROR :: int where "ERROR = 40"
definition CRITICAL :: int where "CRITICAL = 50"

text \<open>\<open>PieLogLevel.getLevelStr\<close>: the \<open>switch\<close>, case by case, with its \<open>default\<close>.\<close>

definition getLevelStr :: "int \<Rightarrow> string" where
  "getLevelStr level =
     (if level = DEBUG then ''DEBUG''
      else if level = INFO then ''INFO''
      else if level = WARNING then ''WARNING''
      else if level = ERROR then ''ERROR''
      else if level = CRITICAL then ''CRITICAL''
      else ''UNKNOWN'')"

section \<open>String operations of the host language\<close>

text \<open>
  \<open>String.prototype.padEnd(n)\<close> appends spaces up to length \<open>n\<close> and leaves a string
  that is already that long as it is (also for a negative \<open>n\<close>).
\<close>

definition padEnd :: "int \<Rightarrow> string \<Rightarrow> string" where
  "padEnd targetLength s = s @ replicate (nat (targetLength - int (length s))) CHR '' ''"

text \<open>\<open>s.replace(/:/g, "-")\<close> replaces every colon.\<close>

definition replaceColons :: "string \<Rightarrow> string" where
  "replaceColons s = map (\<lambda>c. if c = CHR '':'' then CHR ''-'' else c) s"

text \<open>\<open>s.replace("T", " ")\<close> with a string pattern replaces the first occurrence only.\<close>

fun replaceFirstT :: "string \<Rightarrow> string" where
  "replaceFirstT [] = []"
| "replaceFirstT (c # cs) = (if c = CHR ''T'' then CHR '' '' # cs else c # replaceFirstT cs)"

text \<open>\<open>s.slice(0, -1)\<close> drops the last character (and leaves the empty string empty).\<close>

definition sliceInit :: "string \<Rightarrow> string" where
  "sliceInit s = butlast s"

section \<open>The host: pure library functions the logger calls\<close>

text \<open>
  The colours of \<open>chalk\<close> that the logger uses. \<open>chalk\<close>, \<open>path.join\<close>,
  \<open>os.homedir\<close> and \<open>util.inspect\<close> belong to the runtime and to libraries, not to this
  repository: they are parameters of the model. \<open>'d\<close> is the type of the structured
  details objects.
\<close>

datatype colour = Cyan | Green | Yellow | Red | Magenta | White

record 'd host =
  homedir :: string
  path_join :: "string list \<Rightarrow> string"
  inspect :: "'d \<Rightarrow> string"
  chalk :: "colour \<Rightarrow> string \<Rightarrow> string"

section \<open>The world: console and file system\<close>

text \<open>
  What the logger acts on: the lines printed by \<open>console.log\<close>, the directories and the
  files with their contents. Three fields say which operations of the environment fail:
  \<open>stdout_error\<close> for the console stream, \<open>mkdir_error\<close> for creating a directory,
  \<open>write_error\<close> for writing to the file of a stream. \<open>error_events\<close> collects the
  \<open>'error'\<close> events that write streams emit after a failed write; the logger registers
  no listener for them.
\<close>

datatype error = IOError string

record world =
  stdout :: "string list"
  stdout_error :: "error option"
  dirs :: "string set"
  mkdir_error :: "string \<Rightarrow> error option"
  files :: "string \<rightharpoonup> string"
  write_error :: "string \<Rightarrow> error option"
  error_events :: "error list"

text \<open>
  A call either returns or throws; both leave a state behind. There is no
  \<open>try\<close>/\<open>catch\<close> in this source, so a throw of a callee is a throw of the caller.
\<close>

datatype 's outcome = Return 's | Throw error 's

fun final :: "'s outcome \<Rightarrow> 's" where
  "final (Return s) = s"
| "final (Throw e s) = s"

fun thrown :: "'s outcome \<Rightarrow> error option" where
  "thrown (Return s) = None"
| "thrown (Throw e s) = Some e"

text \<open>
  \<open>console.log(line)\<close> prints the line and returns. The global console of Node ignores
  the errors of its stream: when standard output fails the call returns all the same, and
  the line is not printed.
\<close>

definition console_log :: "string \<Rightarrow> world \<Rightarrow> world" where
  "console_log line w =
     (case stdout_error w of
        Some e \<Rightarrow> w
      | None \<Rightarrow> w\<lparr>stdout := stdout w @ [line]\<rparr>)"

definition existsSync :: "string \<Rightarrow> world \<Rightarrow> bool" where
  "existsSync p w = (p \<in> dirs w \<or> p \<in> dom (files w))"

text \<open>\<open>fs.mkdirSync(p, {recursive: true})\<close>: the directory exists afterwards, or the call throws.\<close>

definition mkdirSync :: "string \<Rightarrow> world \<Rightarrow> world outcome" where
  "mkdirSync p w =
     (case mkdir_error w p of
        Some e \<Rightarrow> Throw e w
      | None \<Rightarrow> Return (w\<lparr>dirs := insert p (dirs w)\<rparr>))"

text \<open>
  \<open>fs.createWriteStream(p, {flags: "a"})\<close> returns the stream at once; append mode
  creates the file when it is missing and keeps its content otherwise. A stream is
  identified by the path it was opened on.
\<close>

definition createWriteStream :: "string \<Rightarrow> world \<Rightarrow> world" where
  "createWriteStream p w =
     (case files w p of
        None \<Rightarrow> w\<lparr>files := (files w)(p \<mapsto> [])\<rparr>
      | Some c \<Rightarrow> w)"

text \<open>
  \<open>stream.write(chunk)\<close> appends the chunk to the file of the stream and returns. A
  write that fails does not throw in the call: the call returns, nothing reaches the file,
  and the stream emits an \<open>'error'\<close> event later.
\<close>

definition stream_write :: "string \<Rightarrow> string \<Rightarrow> world \<Rightarrow> world" where
  "stream_write p chunk w =
     (case write_error w p of
        Some e \<Rightarrow> w\<lparr>error_events := error_events w @ [e]\<rparr>
      | None \<Rightarrow>
          w\<lparr>files := (files w)(p \<mapsto> (case files w p of None \<Rightarrow> chunk | Some c \<Rightarrow> c @ chunk))\<rparr>)"

section \<open>PieLogger\<close>

text \<open>
  The options object of the constructor: only \<open>loggerName\<close> is required, a missing
  property takes the default of the destructuring pattern.
\<close>

record options =
  opt_loggerName :: string
  opt_timezone :: "string option"
  opt_timestampPadding :: "int option"
  opt_logLevelPadding :: "int option"
  opt_filePathPadding :: "int option"
  opt_colorful :: "bool option"
  opt_minimumLogLevel :: "int option"
  opt_logToFile :: "bool option"
  opt_logDirectory :: "string option"
  opt_logFileSizeLimit :: "int option"
  opt_maxBackupFiles :: "int option"

fun dflt :: "'a \<Rightarrow> 'a option \<Rightarrow> 'a" where
  "dflt d None = d"
| "dflt d (Some v) = v"

text \<open>The fields of a \<open>PieLogger\<close> object; the last two are set by \<open>setupLogDirectory\<close> only.\<close>

record logger =
  loggerName :: string
  timezone :: string
  timestampPadding :: int
  logLevelPadding :: int
  filePathPadding :: int
  colorful :: bool
  minimumLogLevel :: int
  logToFile :: bool
  logDirectory :: string
  logFileSizeLimit :: int
  maxBackupFiles :: int
  startTimestamp :: string
  logFilePath :: "string option"
  fileWriteStream :: "string option"

type_synonym state = "logger \<times> world"

text \<open>
  \<open>setupLogDirectory\<close>: the session directory under the home directory, created when it
  does not exist, then the path of the log file and its stream in append mode.
\<close>

definition setupLogDirectory :: "'d host \<Rightarrow> state \<Rightarrow> state outcome" where
  "setupLogDirectory h s =
     (let lg = fst s; w = snd s;
          logDir = path_join h [homedir h, logDirectory lg, startTimestamp lg]
      in case (if \<not> existsSync logDir w then mkdirSync logDir w else Return w) of
           Throw e w' \<Rightarrow> Throw e (lg, w')
         | Return w' \<Rightarrow>
             (let p = path_join h [logDir, loggerName lg @ ''-'' @ startTimestamp lg @ ''.log'']
              in Return (lg\<lparr>logFilePath := Some p, fileWriteStream := Some p\<rparr>,
                         createWriteStream p w')))"

text \<open>
  The constructor. \<open>now\<close> is what \<open>new Date().toISOString()\<close> returns at the call, for
  example \<open>2024-01-01T00:00:00.000Z\<close>.
\<close>

definition PieLogger :: "'d host \<Rightarrow> string \<Rightarrow> options \<Rightarrow> world \<Rightarrow> state outcome" where
  "PieLogger h now opts w =
     (let lg = \<lparr> loggerName = opt_loggerName opts,
                 timezone = dflt ''UTC'' (opt_timezone opts),
                 timestampPadding = dflt 30 (opt_timestampPadding opts),
                 logLevelPadding = dflt 10 (opt_logLevelPadding opts),
                 filePathPadding = dflt 30 (opt_filePathPadding opts),
                 colorful = dflt True (opt_colorful opts),
                 minimumLogLevel = dflt INFO (opt_minimumLogLevel opts),
                 logToFile = dflt True (opt_logToFile opts),
                 logDirectory = dflt ''logs'' (opt_logDirectory opts),
                 logFileSizeLimit = dflt (32 * 1024 * 1024) (opt_logFileSizeLimit opts),
                 maxBackupFiles = dflt 2 (opt_maxBackupFiles opts),
                 startTimestamp = replaceColons now,
                 logFilePath = None,
                 fileWriteStream = None \<rparr>
      in if logToFile lg then setupLogDirectory h (lg, w) else Return (lg, w))"

text \<open>\<open>getTimestamp\<close>, from the ISO string of the current instant.\<close>

definition getTimestamp :: "string \<Rightarrow> string" where
  "getTimestamp now = sliceInit (replaceFirstT now)"

text \<open>
  \<open>consoleLog\<close>: the colour table keyed by level, \<open>chalk.white\<close> for a level that is not
  in the table, the identity when \<open>colorful\<close> is off.
\<close>

definition colorMapping :: "int \<rightharpoonup> colour" where
  "colorMapping =
     [DEBUG \<mapsto> Cyan, INFO \<mapsto> Green, WARNING \<mapsto> Yellow, ERROR \<mapsto> Red, CRITICAL \<mapsto> Magenta]"

definition colorize :: "'d host \<Rightarrow> logger \<Rightarrow> int \<Rightarrow> string \<Rightarrow> string" where
  "colorize h lg level =
     (if colorful lg
      then (case colorMapping level of Some c \<Rightarrow> chalk h c | None \<Rightarrow> chalk h White)
      else (\<lambda>str. str))"

definition consoleLog :: "'d host \<Rightarrow> int \<Rightarrow> string \<Rightarrow> state \<Rightarrow> state outcome" where
  "consoleLog h level logMessage s =
     Return (fst s, console_log (colorize h (fst s) level logMessage) (snd s))"

text \<open>\<open>fileLog\<close>: one write of the message and a newline, when there is a stream.\<close>

definition fileLog :: "string \<Rightarrow> state \<Rightarrow> state outcome" where
  "fileLog logMessage s =
     (case fileWriteStream (fst s) of
        Some p \<Rightarrow> Return (fst s, stream_write p (logMessage @ [CHR 0x0A]) (snd s))
      | None \<Rightarrow> Return s)"

text \<open>
  The text that \<open>log\<close> builds (its constants \<open>levelStr\<close>, \<open>timestamp\<close>, \<open>filePath\<close>,
  \<open>logMessage\<close> and \<open>fullLog\<close>). A details object is truthy; \<open>None\<close> is \<open>null\<close>.
\<close>

definition fullLog :: "'d host \<Rightarrow> logger \<Rightarrow> string \<Rightarrow> int \<Rightarrow> string \<Rightarrow> 'd option \<Rightarrow> string" where
  "fullLog h lg now level message details =
     (let levelStr = padEnd (logLevelPadding lg) (getLevelStr level);
          timestamp = padEnd (timestampPadding lg) (getTimestamp now);
          filePath = padEnd (filePathPadding lg) (''['' @ loggerName lg @ '']'');
          logMessage = timestamp @ '' '' @ levelStr @ '' '' @ filePath @ '': '' @ message
      in case details of
           Some d \<Rightarrow> logMessage @ [CHR 0x0A] @ inspect h d
         | None \<Rightarrow> logMessage)"

text \<open>\<open>log\<close>: the threshold, the text, the console, then the file when \<open>logToFile\<close> is set.\<close>

definition log :: "'d host \<Rightarrow> string \<Rightarrow> int \<Rightarrow> string \<Rightarrow> 'd option \<Rightarrow> state \<Rightarrow> state outcome" where
  "log h now level message details s =
     (if level < minimumLogLevel (fst s) then Return s
      else
        (let text = fullLog h (fst s) now level message details
         in case consoleLog h level text s of
              Throw e s' \<Rightarrow> Throw e s'
            | Return s' \<Rightarrow> if logToFile (fst s') then fileLog text s' else Return s'))"

text \<open>The wrapper methods.\<close>

definition debug :: "'d host \<Rightarrow> string \<Rightarrow> string \<Rightarrow> 'd option \<Rightarrow> state \<Rightarrow> state outcome" where
  "debug h now message details = log h now DEBUG message details"

definition info :: "'d host \<Rightarrow> string \<Rightarrow> string \<Rightarrow> 'd option \<Rightarrow> state \<Rightarrow> state outcome" where
  "info h now message details = log h now INFO message details"

definition warning :: "'d host \<Rightarrow> string \<Rightarrow> string \<Rightarrow> 'd option \<Rightarrow> state \<Rightarrow> state outcome" where
  "warning h now message details = log h now WARNING message details"

definition error :: "'d host \<Rightarrow> string \<Rightarrow> string \<Rightarrow> 'd option \<Rightarrow> state \<Rightarrow> state outcome" where
  "error h now message details = log h now ERROR message details"

definition critical :: "'d host \<Rightarrow> string \<Rightarrow> string \<Rightarrow> 'd option \<Rightarrow> state \<Rightarrow> state outcome" where
  "critical h now message details = log h now CRITICAL message details"

section \<open>A sequential caller\<close>

text \<open>
  One emission call: the instant, the level, the message and the details. A caller that
  makes the calls one after the other stops at the first one that throws.
\<close>

record 'd emission =
  at :: string
  lvl :: int
  msg :: string
  det :: "'d option"

fun log_all :: "'d host \<Rightarrow> 'd emission list \<Rightarrow> state \<Rightarrow> state outcome" where
  "log_all h [] s = Return s"
| "log_all h (e # es) s =
     (case log h (at e) (lvl e) (msg e) (det e) s of
        Throw err s' \<Rightarrow> Throw err s'
      | Return s' \<Rightarrow> log_all h es s')"

section \<open>Example host, world and loggers\<close>

text \<open>
  Concrete inputs on which the model is evaluated: a host whose \<open>path.join\<close> puts a
  slash between segments (what \<open>path.join\<close> does on POSIX for segments without dots,
  empty parts or slashes at their ends), whose details are already text and whose
  \<open>chalk\<close> writes ANSI colour codes; an empty world where nothing fails.
\<close>

fun joinSlash :: "string list \<Rightarrow> string" where
  "joinSlash [] = ''.''"
| "joinSlash [p] = p"
| "joinSlash (p # ps) = p @ ''/'' @ joinSlash ps"

fun ansiCode :: "colour \<Rightarrow> string" where
  "ansiCode Cyan = ''36''"
| "ansiCode Green = ''32''"
| "ansiCode Yellow = ''33''"
| "ansiCode Red = ''31''"
| "ansiCode Magenta = ''35''"
| "ansiCode White = ''37''"

definition ansi :: "colour \<Rightarrow> string \<Rightarrow> string" where
  "ansi c s = [CHR 0x1B] @ ''['' @ ansiCode c @ ''m'' @ s @ [CHR 0x1B] @ ''[39m''"

definition posix_host :: "string host" where
  "posix_host = \<lparr> homedir = ''/home/u'', path_join = joinSlash, inspect = (\<lambda>d. d), chalk = ansi \<rparr>"

definition world0 :: world where
  "world0 = \<lparr> stdout = [], stdout_error = None, dirs = {}, mkdir_error = (\<lambda>p. None),
              files = Map.empty, write_error = (\<lambda>p. None), error_events = [] \<rparr>"

text \<open>
  A world where no directory can be created, one whose standard output fails, and one
  where every write to a file fails.
\<close>

definition world_denied :: world where
  "world_denied = world0\<lparr>mkdir_error := (\<lambda>p. Some (IOError ''EACCES''))\<rparr>"

definition world_mute :: world where
  "world_mute = world0\<lparr>stdout_error := Some (IOError ''EPIPE'')\<rparr>"

definition world_full :: world where
  "world_full = world0\<lparr>write_error := (\<lambda>p. Some (IOError ''ENOSPC''))\<rparr>"

text \<open>
  Options with a size limit of 100 bytes, no padding and no colour, so that an INFO call
  with the message \<open>hello\<close> writes 40 bytes: 39 of text and the newline.
\<close>

definition small_options :: "int \<Rightarrow> options" where
  "small_options backups =
     \<lparr> opt_loggerName = ''a'', opt_timezone = None, opt_timestampPadding = Some 0,
       opt_logLevelPadding = Some 0, opt_filePathPadding = Some 0, opt_colorful = Some False,
       opt_minimumLogLevel = None, opt_logToFile = None, opt_logDirectory = None,
       opt_logFileSizeLimit = Some 100, opt_maxBackupFiles = Some backups \<rparr>"

definition session_start :: string where
  "session_start = ''2024-01-01T00:00:00.000Z''"

definition session_file :: string where
  "session_file = ''/home/u/logs/2024-01-01T00-00-00.000Z/a-2024-01-01T00-00-00.000Z.log''"

definition hello :: "string \<Rightarrow> string emission" where
  "hello now = \<lparr> at = now, lvl = INFO, msg = ''hello'', det = None \<rparr>"

definition three_hellos :: "string emission list" where
  "three_hellos = [hello ''2024-01-01T00:00:01.000Z'', hello ''2024-01-01T00:00:02.000Z'',
                   hello ''2024-01-01T00:00:03.000Z'']"

definition three_lines :: string where
  "three_lines =
     ''2024-01-01 00:00:01.000 INFO [a]: hello'' @ [CHR 0x0A] @
     ''2024-01-01 00:00:02.000 INFO [a]: hello'' @ [CHR 0x0A] @
     ''2024-01-01 00:00:03.000 INFO [a]: hello'' @ [CHR 0x0A]"

text \<open>A logger object with no stream, with the threshold and the file switch given.\<close>

definition plain_logger :: "int \<Rightarrow> bool \<Rightarrow> logger" where
  "plain_logger minimum toFile =
     \<lparr> loggerName = ''a'', timezone = ''UTC'', timestampPadding = 0, logLevelPadding = 0,
       filePathPadding = 0, colorful = False, minimumLogLevel = minimum, logToFile = toFile,
       logDirectory = ''logs'', logFileSizeLimit = 100, maxBackupFiles = 2,
       startTimestamp = ''2024-01-01T00-00-00.000Z'', logFilePath = None,
       fileWriteStream = None \<rparr>"

text \<open>The text of one emission, as \<open>log\<close> builds it for the logger.\<close>

abbreviation line_of :: "'d host \<Rightarrow> logger \<Rightarrow> 'd emission \<Rightarrow> string" where
  "line_of h lg e \<equiv> fullLog h lg (at e) (lvl e) (msg e) (det e)"

section \<open>Unfolding the model\<close>

lemmas level_defs = DEBUG_def INFO_def WARNING_def ERROR_def CRITICAL_def

lemmas model_defs = PieLogger_def setupLogDirectory_def existsSync_def mkdirSync_def
  createWriteStream_def log_def fullLog_def consoleLog_def console_log_def colorize_def
  colorMapping_def fileLog_def stream_write_def getTimestamp_def sliceInit_def
  replaceColons_def padEnd_def getLevelStr_def level_defs Let_def

lemmas example_defs = posix_host_def world0_def world_denied_def world_mute_def world_full_def
  small_options_def session_start_def session_file_def hello_def three_hellos_def
  three_lines_def plain_logger_def ansi_def

section \<open>The two sinks, one call at a time\<close>

lemma consoleLog_ok:
  "stdout_error w = None \<Longrightarrow>
   consoleLog h level t (lg, w) = Return (lg, w\<lparr>stdout := stdout w @ [colorize h lg level t]\<rparr>)"
  by (simp add: consoleLog_def console_log_def)


lemma fileLog_none: "fileWriteStream lg = None \<Longrightarrow> fileLog t (lg, w) = Return (lg, w)"
  by (simp add: fileLog_def)

lemma fileLog_ok:
  "fileWriteStream lg = Some p \<Longrightarrow> write_error w p = None \<Longrightarrow>
   fileLog t (lg, w) =
     Return (lg, w\<lparr>files := (files w)(p \<mapsto>
       (case files w p of None \<Rightarrow> t @ [CHR 0x0A] | Some c \<Rightarrow> c @ t @ [CHR 0x0A]))\<rparr>)"
  by (simp add: fileLog_def stream_write_def)

lemma fileLog_deferred:
  "fileWriteStream lg = Some p \<Longrightarrow> write_error w p = Some e \<Longrightarrow>
   fileLog t (lg, w) = Return (lg, w\<lparr>error_events := error_events w @ [e]\<rparr>)"
  by (simp add: fileLog_def stream_write_def)

lemma log_below: "level < minimumLogLevel (fst s) \<Longrightarrow> log h now level m d s = Return s"
  by (simp add: log_def)

lemma log_both_sinks:
  assumes "minimumLogLevel lg \<le> level" "stdout_error w = None" "logToFile lg"
    "fileWriteStream lg = Some p" "write_error w p = None" "files w p = Some c"
  shows "log h now level m d (lg, w) =
    Return (lg, w\<lparr>stdout := stdout w @ [colorize h lg level (fullLog h lg now level m d)],
                   files := (files w)(p \<mapsto> c @ fullLog h lg now level m d @ [CHR 0x0A])\<rparr>)"
  using assms by (simp add: log_def Let_def consoleLog_ok fileLog_ok)

text \<open>A call that passes the threshold prints its line, whatever the file sink does next.\<close>

lemma log_prints:
  assumes "minimumLogLevel lg \<le> level" and "stdout_error w = None"
  shows "stdout (snd (final (log h now level m d (lg, w))))
    = stdout w @ [colorize h lg level (fullLog h lg now level m d)]"
proof (cases "logToFile lg")
  case False
  with assms show ?thesis by (simp add: log_def Let_def consoleLog_ok)
next
  case True
  show ?thesis
  proof (cases "fileWriteStream lg")
    case None
    with assms True show ?thesis by (simp add: log_def Let_def consoleLog_ok fileLog_none)
  next
    case (Some q)
    with assms True show ?thesis
      by (cases "write_error w q")
         (simp_all add: log_def Let_def consoleLog_ok fileLog_ok fileLog_deferred)
  qed
qed

text \<open>
  No method called after construction assigns a field of the logger object, none throws,
  and the only file a call can create or change is the file of the stream.
\<close>

lemma log_returns:
  "\<exists>w'. log h now level m d (lg, w) = Return (lg, w')
     \<and> (\<forall>p. fileWriteStream lg = Some p \<longrightarrow> dom (files w') \<subseteq> insert p (dom (files w)))
     \<and> (fileWriteStream lg = None \<longrightarrow> files w' = files w)"
  by (auto simp: log_def Let_def consoleLog_def console_log_def fileLog_def stream_write_def
           split: option.splits)

lemma log_keeps_logger: "fst (final (log h now level m d s)) = fst s"
proof -
  obtain w' where "log h now level m d (fst s, snd s) = Return (fst s, w')"
    using log_returns [of h now level m d "fst s" "snd s"] by blast
  then show ?thesis by simp
qed

lemma log_all_returns:
  "\<exists>w'. log_all h es (lg, w) = Return (lg, w')
     \<and> (\<forall>p. fileWriteStream lg = Some p \<longrightarrow> dom (files w') \<subseteq> insert p (dom (files w)))"
proof (induction es arbitrary: w)
  case Nil
  show ?case by auto
next
  case (Cons e es)
  obtain w1 where w1: "log h (at e) (lvl e) (msg e) (det e) (lg, w) = Return (lg, w1)"
    "\<forall>p. fileWriteStream lg = Some p \<longrightarrow> dom (files w1) \<subseteq> insert p (dom (files w))"
    using log_returns [of h "at e" "lvl e" "msg e" "det e" lg w] by blast
  obtain w2 where w2: "log_all h es (lg, w1) = Return (lg, w2)"
    "\<forall>p. fileWriteStream lg = Some p \<longrightarrow> dom (files w2) \<subseteq> insert p (dom (files w1))"
    using Cons.IH [of w1] by blast
  have "log_all h (e # es) (lg, w) = Return (lg, w2)"
    using w1(1) w2(1) by simp
  moreover have "\<forall>p. fileWriteStream lg = Some p \<longrightarrow> dom (files w2) \<subseteq> insert p (dom (files w))"
    using w1(2) w2(2) by blast
  ultimately show ?case by blast
qed

lemma log_all_keeps_logger: "fst (final (log_all h es s)) = fst s"
proof -
  obtain w' where "log_all h es (fst s, snd s) = Return (fst s, w')"
    using log_all_returns [of h es "fst s" "snd s"] by blast
  then show ?thesis by simp
qed

section \<open>Level names\<close>

text \<open>
  C9. \<open>getLevelStr\<close> is a total function: it names the five declared levels 10, 20, 30,
  40 and 50 as DEBUG, INFO, WARNING, ERROR and CRITICAL, and every other level is
  UNKNOWN. So a \<open>log\<close> call with any other level that passes the threshold still prints
  a line, labelled UNKNOWN in the level column.
\<close>

theorem getLevelStr_total:
  "getLevelStr 10 = ''DEBUG'' \<and> getLevelStr 20 = ''INFO'' \<and> getLevelStr 30 = ''WARNING''
   \<and> getLevelStr 40 = ''ERROR'' \<and> getLevelStr 50 = ''CRITICAL''
   \<and> (level \<notin> {10, 20, 30, 40, 50} \<longrightarrow> getLevelStr level = ''UNKNOWN'')
   \<and> (level \<notin> {10, 20, 30, 40, 50} \<and> minimumLogLevel lg \<le> level \<and> stdout_error w = None \<longrightarrow>
        stdout (snd (final (log h now level m None (lg, w))))
          = stdout w @ [colorize h lg level
              (padEnd (timestampPadding lg) (getTimestamp now) @ '' ''
               @ padEnd (logLevelPadding lg) ''UNKNOWN'' @ '' ''
               @ padEnd (filePathPadding lg) (''['' @ loggerName lg @ '']'') @ '': '' @ m)])"
proof -
  have names: "getLevelStr 10 = ''DEBUG'' \<and> getLevelStr 20 = ''INFO''
      \<and> getLevelStr 30 = ''WARNING'' \<and> getLevelStr 40 = ''ERROR''
      \<and> getLevelStr 50 = ''CRITICAL''"
    by (simp add: getLevelStr_def level_defs)
  have other: "getLevelStr level = ''UNKNOWN''" if "level \<notin> {10, 20, 30, 40, 50}"
    using that by (simp add: getLevelStr_def level_defs)
  have line: "stdout (snd (final (log h now level m None (lg, w))))
          = stdout w @ [colorize h lg level
              (padEnd (timestampPadding lg) (getTimestamp now) @ '' ''
               @ padEnd (logLevelPadding lg) ''UNKNOWN'' @ '' ''
               @ padEnd (filePathPadding lg) (''['' @ loggerName lg @ '']'') @ '': '' @ m)]"
    if "level \<notin> {10, 20, 30, 40, 50}" "minimumLogLevel lg \<le> level" "stdout_error w = None"
    using that(2,3) other [OF that(1)] by (simp add: log_prints fullLog_def Let_def)
  from names other line show ?thesis by blast
qed

text \<open>Level 35 with the threshold INFO: the line is printed with the label UNKNOWN.\<close>

theorem getLevelStr_total_witness:
  "(35::int) \<notin> {10, 20, 30, 40, 50} \<and> getLevelStr 35 = ''UNKNOWN''
   \<and> minimumLogLevel (plain_logger INFO False) \<le> 35 \<and> stdout_error world0 = None
   \<and> stdout (snd (final (log posix_host ''2024-01-01T00:00:01.000Z'' 35 ''odd'' None
        (plain_logger INFO False, world0))))
       = [''2024-01-01 00:00:01.000 UNKNOWN [a]: odd'']"
proof -
  let ?lg = "plain_logger INFO False"
  have h: "(35::int) \<notin> {10, 20, 30, 40, 50}" "minimumLogLevel ?lg \<le> 35"
    "stdout_error world0 = None" "stdout world0 = []"
    by (simp_all add: plain_logger_def world0_def level_defs)
  have rendered: "colorize posix_host ?lg 35
      (padEnd (timestampPadding ?lg) (getTimestamp ''2024-01-01T00:00:01.000Z'') @ '' ''
       @ padEnd (logLevelPadding ?lg) ''UNKNOWN'' @ '' ''
       @ padEnd (filePathPadding ?lg) (''['' @ loggerName ?lg @ '']'') @ '': '' @ ''odd'')
      = ''2024-01-01 00:00:01.000 UNKNOWN [a]: odd''"
    by (simp add: colorize_def plain_logger_def getTimestamp_def sliceInit_def padEnd_def)
  note th = getLevelStr_total [of 35 ?lg world0 posix_host "''2024-01-01T00:00:01.000Z''" "''odd''"]
  from th h(1) have 1: "getLevelStr 35 = ''UNKNOWN''"
    by blast
  from th h(1,2,3) have "stdout (snd (final (log posix_host ''2024-01-01T00:00:01.000Z'' 35 ''odd''
      None (?lg, world0))))
    = stdout world0 @ [colorize posix_host ?lg 35
      (padEnd (timestampPadding ?lg) (getTimestamp ''2024-01-01T00:00:01.000Z'') @ '' ''
       @ padEnd (logLevelPadding ?lg) ''UNKNOWN'' @ '' ''
       @ padEnd (filePathPadding ?lg) (''['' @ loggerName ?lg @ '']'') @ '': '' @ ''odd'')]"
    by blast
  then have 2: "stdout (snd (final (log posix_host ''2024-01-01T00:00:01.000Z'' 35 ''odd''
      None (?lg, world0)))) = [''2024-01-01 00:00:01.000 UNKNOWN [a]: odd'']"
    by (simp only: rendered h(4) append_Nil)
  from h 1 2 show ?thesis by blast
qed

section \<open>The severity threshold\<close>

text \<open>
  C4. A call of \<open>log\<close> below the minimum level returns at once and leaves the logger,
  the console and the files as they were; a call at or above the minimum (the minimum
  itself included) prints one line, the formatted text, on the console, and appends that
  text and a newline to the log file when file logging is on and the stream is there.
\<close>

theorem log_threshold:
  "(level < minimumLogLevel lg \<longrightarrow> log h now level m d (lg, w) = Return (lg, w))
   \<and> (minimumLogLevel lg \<le> level \<and> stdout_error w = None \<longrightarrow>
        stdout (snd (final (log h now level m d (lg, w))))
          = stdout w @ [colorize h lg level (fullLog h lg now level m d)])
   \<and> (minimumLogLevel lg \<le> level \<and> stdout_error w = None \<and> logToFile lg
        \<and> fileWriteStream lg = Some p \<and> write_error w p = None \<and> files w p = Some c \<longrightarrow>
        files (snd (final (log h now level m d (lg, w))))
          = (files w)(p \<mapsto> c @ fullLog h lg now level m d @ [CHR 0x0A]))"
proof (intro conjI impI)
  assume "level < minimumLogLevel lg"
  then show "log h now level m d (lg, w) = Return (lg, w)"
    by (simp add: log_below)
next
  assume "minimumLogLevel lg \<le> level \<and> stdout_error w = None"
  then show "stdout (snd (final (log h now level m d (lg, w))))
          = stdout w @ [colorize h lg level (fullLog h lg now level m d)]"
    by (simp add: log_prints)
next
  assume "minimumLogLevel lg \<le> level \<and> stdout_error w = None \<and> logToFile lg
        \<and> fileWriteStream lg = Some p \<and> write_error w p = None \<and> files w p = Some c"
  then show "files (snd (final (log h now level m d (lg, w))))
          = (files w)(p \<mapsto> c @ fullLog h lg now level m d @ [CHR 0x0A])"
    by (simp add: log_both_sinks)
qed

text \<open>
  The scenario with the minimum WARNING: \<open>info\<close> changes nothing, \<open>warning\<close> gives one
  line on the console and the same line in the file.
\<close>

theorem log_threshold_witness:
  "INFO < minimumLogLevel (plain_logger WARNING True\<lparr>fileWriteStream := Some ''f''\<rparr>)
   \<and> info posix_host ''2024-01-01T00:00:01.000Z'' ''quiet'' None
        (plain_logger WARNING True\<lparr>fileWriteStream := Some ''f''\<rparr>, createWriteStream ''f'' world0)
       = Return (plain_logger WARNING True\<lparr>fileWriteStream := Some ''f''\<rparr>,
                 createWriteStream ''f'' world0)
   \<and> minimumLogLevel (plain_logger WARNING True\<lparr>fileWriteStream := Some ''f''\<rparr>) \<le> WARNING
   \<and> stdout (snd (final (warning posix_host ''2024-01-01T00:00:02.000Z'' ''loud'' None
        (plain_logger WARNING True\<lparr>fileWriteStream := Some ''f''\<rparr>, createWriteStream ''f'' world0))))
       = [''2024-01-01 00:00:02.000 WARNING [a]: loud'']
   \<and> files (snd (final (warning posix_host ''2024-01-01T00:00:02.000Z'' ''loud'' None
        (plain_logger WARNING True\<lparr>fileWriteStream := Some ''f''\<rparr>, createWriteStream ''f'' world0))))
       = [''f'' \<mapsto> ''2024-01-01 00:00:02.000 WARNING [a]: loud'' @ [CHR 0x0A]]"
proof -
  let ?lg = "plain_logger WARNING True\<lparr>fileWriteStream := Some ''f''\<rparr>"
  let ?w = "createWriteStream ''f'' world0"
  have lo: "INFO < minimumLogLevel ?lg" and hi: "minimumLogLevel ?lg \<le> WARNING"
    by (simp_all add: plain_logger_def level_defs)
  have env: "stdout_error ?w = None" "logToFile ?lg" "fileWriteStream ?lg = Some ''f''"
    "write_error ?w ''f'' = None" "files ?w ''f'' = Some []" "stdout ?w = []"
    "files ?w = [''f'' \<mapsto> []]"
    by (simp_all add: plain_logger_def world0_def createWriteStream_def)
  have rendered:
    "fullLog posix_host ?lg ''2024-01-01T00:00:02.000Z'' WARNING ''loud'' None
       = ''2024-01-01 00:00:02.000 WARNING [a]: loud''"
    "colorize posix_host ?lg WARNING ''2024-01-01 00:00:02.000 WARNING [a]: loud''
       = ''2024-01-01 00:00:02.000 WARNING [a]: loud''"
    by (simp_all add: colorize_def fullLog_def plain_logger_def getTimestamp_def sliceInit_def
          padEnd_def getLevelStr_def level_defs Let_def)
  note below = log_threshold [of INFO ?lg posix_host "''2024-01-01T00:00:01.000Z''" "''quiet''"
      None ?w "''f''" "[]"]
  note above = log_threshold [of WARNING ?lg posix_host "''2024-01-01T00:00:02.000Z''" "''loud''"
      None ?w "''f''" "[]"]
  from below lo have 1: "info posix_host ''2024-01-01T00:00:01.000Z'' ''quiet'' None (?lg, ?w)
      = Return (?lg, ?w)"
    unfolding info_def by blast
  have 2: "stdout (snd (final (warning posix_host
      ''2024-01-01T00:00:02.000Z'' ''loud'' None (?lg, ?w))))
      = [''2024-01-01 00:00:02.000 WARNING [a]: loud'']"
  proof -
    from above hi env(1) have "stdout (snd (final (log posix_host
        ''2024-01-01T00:00:02.000Z'' WARNING ''loud'' None (?lg, ?w))))
      = stdout ?w @ [colorize posix_host ?lg WARNING
          (fullLog posix_host ?lg ''2024-01-01T00:00:02.000Z'' WARNING ''loud'' None)]"
      by blast
    then show ?thesis
      by (simp only: warning_def rendered env(6) append_Nil)
  qed
  have 3: "files (snd (final (warning posix_host
      ''2024-01-01T00:00:02.000Z'' ''loud'' None (?lg, ?w))))
      = [''f'' \<mapsto> ''2024-01-01 00:00:02.000 WARNING [a]: loud'' @ [CHR 0x0A]]"
  proof -
    from above hi env(1-5) have "files (snd (final (log posix_host
        ''2024-01-01T00:00:02.000Z'' WARNING ''loud'' None (?lg, ?w))))
      = (files ?w)(''f'' \<mapsto> [] @
          fullLog posix_host ?lg ''2024-01-01T00:00:02.000Z'' WARNING ''loud'' None @ [CHR 0x0A])"
      by blast
    then show ?thesis
      by (simp only: warning_def rendered env(7) append_Nil fun_upd_upd)
  qed
  from lo hi 1 2 3 show ?thesis by blast
qed

section \<open>The file sink without a stream\<close>

text \<open>
  C10. \<open>fileLog\<close> writes only when the logger has a write stream. With \<open>logToFile\<close> set
  and no stream, \<open>fileLog\<close> returns without doing anything, and a \<open>log\<close> call at or above
  the threshold returns normally after its console line: no error comes from the missing
  stream and no file is touched.
\<close>

theorem fileLog_without_stream:
  assumes "logToFile lg" and "fileWriteStream lg = None"
  shows "fileLog t (lg, w) = Return (lg, w)
    \<and> (minimumLogLevel lg \<le> level \<and> stdout_error w = None \<longrightarrow>
         log h now level m d (lg, w)
           = Return (lg, w\<lparr>stdout := stdout w @ [colorize h lg level (fullLog h lg now level m d)]\<rparr>))"
  using assms by (simp add: fileLog_none log_def Let_def consoleLog_ok)

theorem fileLog_without_stream_witness:
  "logToFile (plain_logger INFO True) \<and> fileWriteStream (plain_logger INFO True) = None
   \<and> minimumLogLevel (plain_logger INFO True) \<le> ERROR \<and> stdout_error world0 = None
   \<and> fileLog ''x'' (plain_logger INFO True, world0) = Return (plain_logger INFO True, world0)
   \<and> error posix_host ''2024-01-01T00:00:01.000Z'' ''bad'' None (plain_logger INFO True, world0)
       = Return (plain_logger INFO True,
                 world0\<lparr>stdout := [''2024-01-01 00:00:01.000 ERROR [a]: bad'']\<rparr>)"
proof -
  let ?lg = "plain_logger INFO True"
  have h: "logToFile ?lg" "fileWriteStream ?lg = None" "minimumLogLevel ?lg \<le> ERROR"
    "stdout_error world0 = None" "stdout world0 = []"
    by (simp_all add: plain_logger_def world0_def level_defs)
  have rendered:
    "fullLog posix_host ?lg ''2024-01-01T00:00:01.000Z'' ERROR ''bad'' None
       = ''2024-01-01 00:00:01.000 ERROR [a]: bad''"
    "colorize posix_host ?lg ERROR ''2024-01-01 00:00:01.000 ERROR [a]: bad''
       = ''2024-01-01 00:00:01.000 ERROR [a]: bad''"
    by (simp_all add: colorize_def fullLog_def plain_logger_def getTimestamp_def sliceInit_def
          padEnd_def getLevelStr_def level_defs Let_def)
  note th = fileLog_without_stream [OF h(1,2), of "''x''" world0 ERROR posix_host
      "''2024-01-01T00:00:01.000Z''" "''bad''" None]
  have "error posix_host ''2024-01-01T00:00:01.000Z'' ''bad'' None (?lg, world0)
       = Return (?lg, world0\<lparr>stdout := [''2024-01-01 00:00:01.000 ERROR [a]: bad'']\<rparr>)"
  proof -
    from th h(3,4) have "log posix_host ''2024-01-01T00:00:01.000Z'' ERROR ''bad'' None (?lg, world0)
       = Return (?lg, world0\<lparr>stdout := stdout world0 @ [colorize posix_host ?lg ERROR
           (fullLog posix_host ?lg ''2024-01-01T00:00:01.000Z'' ERROR ''bad'' None)]\<rparr>)"
      by blast
    then show ?thesis
      by (simp only: error_def rendered h(5) append_Nil)
  qed
  with th h show ?thesis by blast
qed

section \<open>Order of the lines\<close>

text \<open>
  C2. When one caller makes emission calls one after the other on a logger with file
  logging on and its stream open, all at or above the threshold, every call returns, and
  afterwards the log file holds what it held before followed by the formatted text of each
  call with its newline, in the order of the calls, nothing lost and nothing reordered;
  no other file has changed, so the log file is the whole file set; the console has the
  same texts in the same order. This holds for any number of bytes, so in particular
  while the total stays within \<open>(maxBackupFiles + 1) * logFileSizeLimit\<close>.
\<close>

theorem log_all_in_order:
  assumes "logToFile lg" and "fileWriteStream lg = Some p" and "files w p = Some c"
    and "stdout_error w = None" and "write_error w p = None"
    and "\<forall>e \<in> set es. minimumLogLevel lg \<le> lvl e"
  shows "\<exists>w'. log_all h es (lg, w) = Return (lg, w')
      \<and> files w' = (files w)(p \<mapsto> c @ concat (map (\<lambda>e. line_of h lg e @ [CHR 0x0A]) es))
      \<and> stdout w' = stdout w @ map (\<lambda>e. colorize h lg (lvl e) (line_of h lg e)) es"
  using assms(3-6)
proof (induction es arbitrary: w c)
  case Nil
  then show ?case by (simp add: fun_upd_idem)
next
  case (Cons e es)
  let ?t = "line_of h lg e"
  let ?w1 = "w\<lparr>stdout := stdout w @ [colorize h lg (lvl e) ?t],
               files := (files w)(p \<mapsto> c @ ?t @ [CHR 0x0A])\<rparr>"
  have step: "log h (at e) (lvl e) (msg e) (det e) (lg, w) = Return (lg, ?w1)"
    using Cons.prems assms(1,2) by (intro log_both_sinks) auto
  have "\<exists>w'. log_all h es (lg, ?w1) = Return (lg, w')
      \<and> files w' = (files ?w1)(p \<mapsto> (c @ ?t @ [CHR 0x0A])
            @ concat (map (\<lambda>e. line_of h lg e @ [CHR 0x0A]) es))
      \<and> stdout w' = stdout ?w1 @ map (\<lambda>e. colorize h lg (lvl e) (line_of h lg e)) es"
    using Cons.prems by (intro Cons.IH) auto
  then obtain w' where w': "log_all h es (lg, ?w1) = Return (lg, w')"
      "files w' = (files ?w1)(p \<mapsto> (c @ ?t @ [CHR 0x0A])
            @ concat (map (\<lambda>e. line_of h lg e @ [CHR 0x0A]) es))"
      "stdout w' = stdout ?w1 @ map (\<lambda>e. colorize h lg (lvl e) (line_of h lg e)) es"
    by blast
  show ?case
  proof (intro exI conjI)
    show "log_all h (e # es) (lg, w) = Return (lg, w')"
      using step w'(1) by simp
    show "files w' = (files w)(p \<mapsto> c @ concat (map (\<lambda>e. line_of h lg e @ [CHR 0x0A]) (e # es)))"
      using w'(2) by simp
    show "stdout w' = stdout w @ map (\<lambda>e. colorize h lg (lvl e) (line_of h lg e)) (e # es)"
      using w'(3) by simp
  qed
qed

text \<open>Three calls on the logger that the constructor returns in the empty world.\<close>

theorem log_all_in_order_witness:
  "logToFile (fst (final (PieLogger posix_host session_start (small_options 2) world0)))
   \<and> fileWriteStream (fst (final (PieLogger posix_host session_start (small_options 2) world0)))
       = Some session_file
   \<and> files (snd (final (PieLogger posix_host session_start (small_options 2) world0))) session_file
       = Some []
   \<and> stdout_error (snd (final (PieLogger posix_host session_start (small_options 2) world0))) = None
   \<and> write_error (snd (final (PieLogger posix_host session_start (small_options 2) world0)))
        session_file = None
   \<and> minimumLogLevel (fst (final (PieLogger posix_host session_start (small_options 2) world0)))
       = INFO
   \<and> map lvl three_hellos = [INFO, INFO, INFO]
   \<and> thrown (log_all posix_host three_hellos
        (final (PieLogger posix_host session_start (small_options 2) world0))) = None
   \<and> files (snd (final (log_all posix_host three_hellos
        (final (PieLogger posix_host session_start (small_options 2) world0))))) session_file
       = Some three_lines"
proof -
  let ?s = "final (PieLogger posix_host session_start (small_options 2) world0)"
  have h: "logToFile (fst ?s)" "fileWriteStream (fst ?s) = Some session_file"
    "files (snd ?s) session_file = Some []" "stdout_error (snd ?s) = None"
    "write_error (snd ?s) session_file = None"
    by (simp_all add: model_defs example_defs)
  have lv: "minimumLogLevel (fst ?s) = INFO" "map lvl three_hellos = [INFO, INFO, INFO]"
    by (simp_all add: model_defs example_defs)
  have th: "\<forall>e \<in> set three_hellos. minimumLogLevel (fst ?s) \<le> lvl e"
    by (simp add: model_defs example_defs)
  have rendered: "[] @ concat (map (\<lambda>e. line_of posix_host (fst ?s) e @ [CHR 0x0A]) three_hellos)
      = three_lines"
    by (simp add: model_defs example_defs)
  from log_all_in_order [OF h(1,2,3,4,5) th, of posix_host]
  obtain w' where w': "log_all posix_host three_hellos (fst ?s, snd ?s) = Return (fst ?s, w')"
    "files w' = (files (snd ?s))(session_file \<mapsto>
        [] @ concat (map (\<lambda>e. line_of posix_host (fst ?s) e @ [CHR 0x0A]) three_hellos))"
    by blast
  from w'(2) have content: "files w' session_file = Some three_lines"
    by (simp only: rendered fun_upd_same)
  from w'(1) have ret: "log_all posix_host three_hellos ?s = Return (fst ?s, w')"
    by (simp only: prod.collapse)
  have 1: "thrown (log_all posix_host three_hellos ?s) = None"
    by (simp only: ret thrown.simps)
  have 2: "files (snd (final (log_all posix_host three_hellos ?s))) session_file = Some three_lines"
    by (simp only: ret final.simps snd_conv content)
  from h lv 1 2 show ?thesis by blast
qed

section \<open>The path of the log file\<close>

text \<open>
  C7. With file logging on, the constructor computes the path of the log file once: the
  session timestamp is the ISO-8601 string of the instant of construction with every colon
  replaced by a hyphen, the session directory is the join of the home directory, the
  configured log directory (\<open>logs\<close> when none is given) and that timestamp, and the file
  is the logger name, a hyphen, the same timestamp and \<open>.log\<close> in that directory. No
  sequence of emission calls, in any world, changes the logger object afterwards, so the
  directory and the file name stay as they are for the life of the logger.
\<close>

theorem log_file_path_fixed:
  assumes "PieLogger h now opts w = Return (lg, w')" and "dflt True (opt_logToFile opts)"
  shows "startTimestamp lg = replaceColons now
    \<and> logFilePath lg =
        Some (path_join h
               [path_join h [homedir h, dflt ''logs'' (opt_logDirectory opts), replaceColons now],
                opt_loggerName opts @ ''-'' @ replaceColons now @ ''.log''])
    \<and> fileWriteStream lg = logFilePath lg
    \<and> fst (final (log_all h es (lg, w''))) = lg"
proof -
  from assms have "startTimestamp lg = replaceColons now
    \<and> logFilePath lg =
        Some (path_join h
               [path_join h [homedir h, dflt ''logs'' (opt_logDirectory opts), replaceColons now],
                opt_loggerName opts @ ''-'' @ replaceColons now @ ''.log''])
    \<and> fileWriteStream lg = logFilePath lg"
    by (auto simp: PieLogger_def setupLogDirectory_def Let_def mkdirSync_def
             split: if_splits option.splits)
  moreover have "fst (final (log_all h es (lg, w''))) = lg"
    using log_all_keeps_logger [of h es "(lg, w'')"] by simp
  ultimately show ?thesis by simp
qed

theorem log_file_path_fixed_witness:
  "dflt True (opt_logToFile (small_options 2))
   \<and> thrown (PieLogger posix_host session_start (small_options 2) world0) = None
   \<and> logFilePath (fst (final (PieLogger posix_host session_start (small_options 2) world0)))
       = Some ''/home/u/logs/2024-01-01T00-00-00.000Z/a-2024-01-01T00-00-00.000Z.log''
   \<and> fst (final (log_all posix_host three_hellos
        (final (PieLogger posix_host session_start (small_options 2) world0))))
       = fst (final (PieLogger posix_host session_start (small_options 2) world0))"
proof -
  let ?s = "final (PieLogger posix_host session_start (small_options 2) world0)"
  have on: "dflt True (opt_logToFile (small_options 2))"
    by (simp add: small_options_def)
  have ret: "PieLogger posix_host session_start (small_options 2) world0 = Return (fst ?s, snd ?s)"
    and ok: "thrown (PieLogger posix_host session_start (small_options 2) world0) = None"
    by (simp_all add: model_defs example_defs)
  have path: "path_join posix_host
      [path_join posix_host [homedir posix_host,
         dflt ''logs'' (opt_logDirectory (small_options 2)), replaceColons session_start],
       opt_loggerName (small_options 2) @ ''-'' @ replaceColons session_start @ ''.log'']
     = ''/home/u/logs/2024-01-01T00-00-00.000Z/a-2024-01-01T00-00-00.000Z.log''"
    by (simp add: example_defs replaceColons_def)
  note th = log_file_path_fixed [OF ret on, of three_hellos "snd ?s"]
  from th have "logFilePath (fst ?s)
       = Some ''/home/u/logs/2024-01-01T00-00-00.000Z/a-2024-01-01T00-00-00.000Z.log''"
    by (simp only: path)
  moreover from th have "fst (final (log_all posix_host three_hellos ?s)) = fst ?s"
    by (simp only: prod.collapse)
  ultimately show ?thesis using on ok by blast
qed

section \<open>Console colours\<close>

text \<open>
  C8. With \<open>colorful\<close> on, the console sink passes the text through the colour of its
  level: cyan for DEBUG, green for INFO, yellow for WARNING, red for ERROR, magenta for
  CRITICAL, five different colours; a level outside those five gets the default of the
  sink, \<open>chalk.white\<close>. With \<open>colorful\<close> off the text is printed as it is. The console
  line is the text so rendered.
\<close>

theorem console_colours:
  "(colorful lg \<longrightarrow>
      colorize h lg DEBUG = chalk h Cyan \<and> colorize h lg INFO = chalk h Green
      \<and> colorize h lg WARNING = chalk h Yellow \<and> colorize h lg ERROR = chalk h Red
      \<and> colorize h lg CRITICAL = chalk h Magenta
      \<and> (level \<notin> {DEBUG, INFO, WARNING, ERROR, CRITICAL} \<longrightarrow> colorize h lg level = chalk h White))
   \<and> distinct (map colorMapping [DEBUG, INFO, WARNING, ERROR, CRITICAL])
   \<and> (\<not> colorful lg \<longrightarrow> colorize h lg level logMessage = logMessage)
   \<and> (stdout_error w = None \<longrightarrow>
        consoleLog h level logMessage (lg, w)
          = Return (lg, w\<lparr>stdout := stdout w @ [colorize h lg level logMessage]\<rparr>))"
proof (intro conjI impI)
  show "distinct (map colorMapping [DEBUG, INFO, WARNING, ERROR, CRITICAL])"
    by (simp add: colorMapping_def level_defs)
next
  assume "stdout_error w = None"
  then show "consoleLog h level logMessage (lg, w)
          = Return (lg, w\<lparr>stdout := stdout w @ [colorize h lg level logMessage]\<rparr>)"
    by (rule consoleLog_ok)
qed (simp_all add: colorize_def colorMapping_def level_defs)

text \<open>A level of 35 is none of the five: white with colours on, unmodified with colours off.\<close>

theorem console_colours_witness:
  "colorful (plain_logger INFO False\<lparr>colorful := True\<rparr>)
   \<and> (35::int) \<notin> {DEBUG, INFO, WARNING, ERROR, CRITICAL}
   \<and> colorize posix_host (plain_logger INFO False\<lparr>colorful := True\<rparr>) 35 = ansi White
   \<and> colorize posix_host (plain_logger INFO False\<lparr>colorful := True\<rparr>) ERROR = ansi Red
   \<and> \<not> colorful (plain_logger INFO False)
   \<and> colorize posix_host (plain_logger INFO False) 35 ''x'' = ''x''
   \<and> stdout_error world0 = None
   \<and> consoleLog posix_host 35 ''x'' (plain_logger INFO False, world0)
       = Return (plain_logger INFO False, world0\<lparr>stdout := [''x'']\<rparr>)"
proof -
  let ?on = "plain_logger INFO False\<lparr>colorful := True\<rparr>"
  let ?off = "plain_logger INFO False"
  have h: "colorful ?on" "(35::int) \<notin> {DEBUG, INFO, WARNING, ERROR, CRITICAL}"
    "\<not> colorful ?off" "stdout_error world0 = None"
    by (simp_all add: plain_logger_def world0_def level_defs)
  have env: "chalk posix_host = ansi" "stdout world0 = []"
    by (simp_all add: posix_host_def world0_def)
  note on = console_colours [of ?on posix_host 35 "''x''" world0]
  note off = console_colours [of ?off posix_host 35 "''x''" world0]
  from on h(1,2) have "colorize posix_host ?on 35 = chalk posix_host White"
    and "colorize posix_host ?on ERROR = chalk posix_host Red"
    by blast+
  then have 1: "colorize posix_host ?on 35 = ansi White"
    and 2: "colorize posix_host ?on ERROR = ansi Red"
    by (simp_all only: env(1))
  from off h(3) have 3: "colorize posix_host ?off 35 ''x'' = ''x''"
    by blast
  from off h(4) have "consoleLog posix_host 35 ''x'' (?off, world0)
      = Return (?off, world0\<lparr>stdout := stdout world0 @ [colorize posix_host ?off 35 ''x'']\<rparr>)"
    by blast
  then have 4: "consoleLog posix_host 35 ''x'' (?off, world0)
      = Return (?off, world0\<lparr>stdout := [''x'']\<rparr>)"
    by (simp only: 3 env(2) append_Nil)
  from h 1 2 3 4 show ?thesis by blast
qed

section \<open>Size limit and backups\<close>

text \<open>
  C1. The claim: a write that brings the bytes written to the size limit or beyond makes
  the file sink rotate, so that with a limit of 100 bytes and two backups, after three
  INFO calls of 40 bytes each the current file holds the third line only. The code at
  this input: the logger is built with \<open>logFileSizeLimit = 100\<close> and
  \<open>maxBackupFiles = 2\<close>, all three calls return, and the log file holds all three
  lines, 120 bytes, and is the only file there is.
\<close>

theorem three_writes_no_rotation:
  "logFileSizeLimit (fst (final (PieLogger posix_host session_start (small_options 2) world0))) = 100
   \<and> maxBackupFiles (fst (final (PieLogger posix_host session_start (small_options 2) world0))) = 2
   \<and> thrown (log_all posix_host three_hellos
        (final (PieLogger posix_host session_start (small_options 2) world0))) = None
   \<and> files (snd (final (log_all posix_host three_hellos
        (final (PieLogger posix_host session_start (small_options 2) world0)))))
       = [session_file \<mapsto> three_lines]
   \<and> length three_lines = 120"
  by (simp add: model_defs example_defs)



section \<open>Failures\<close>

text \<open>
  C5, as the claim states it: construction completes when the log directory cannot be
  created. In a world where \<open>mkdirSync\<close> is refused, the constructor with file logging
  on (the default) throws the error of \<open>mkdirSync\<close>: no logger is returned.
\<close>

theorem construction_aborted_counterexample:
  "dflt True (opt_logToFile (small_options 2))
   \<and> thrown (PieLogger posix_host session_start (small_options 2) world_denied)
       = Some (IOError ''EACCES'')"
  by (simp add: model_defs example_defs)

text \<open>
  C5, amended. With file logging on, when the session directory does not exist and
  creating it fails, the constructor throws that error and leaves the world as it was;
  when the directory exists or can be created, the constructor returns a logger whose
  stream is open on the log file, and the console is untouched.
\<close>

theorem construction_depends_on_mkdir:
  assumes "dflt True (opt_logToFile opts)"
  shows
   "(\<not> existsSync (path_join h [homedir h, dflt ''logs'' (opt_logDirectory opts), replaceColons now]) w
     \<and> mkdir_error w (path_join h [homedir h, dflt ''logs'' (opt_logDirectory opts), replaceColons now])
         = Some e
     \<longrightarrow> thrown (PieLogger h now opts w) = Some e \<and> snd (final (PieLogger h now opts w)) = w)
    \<and> (existsSync (path_join h [homedir h, dflt ''logs'' (opt_logDirectory opts), replaceColons now]) w
       \<or> mkdir_error w (path_join h [homedir h, dflt ''logs'' (opt_logDirectory opts), replaceColons now])
           = None
     \<longrightarrow> thrown (PieLogger h now opts w) = None
         \<and> fileWriteStream (fst (final (PieLogger h now opts w)))
             = Some (path_join h
                 [path_join h [homedir h, dflt ''logs'' (opt_logDirectory opts), replaceColons now],
                  opt_loggerName opts @ ''-'' @ replaceColons now @ ''.log''])
         \<and> stdout (snd (final (PieLogger h now opts w))) = stdout w
         \<and> stdout_error (snd (final (PieLogger h now opts w))) = stdout_error w)"
  using assms
  by (auto simp: PieLogger_def setupLogDirectory_def Let_def mkdirSync_def createWriteStream_def
           split: option.splits)

theorem construction_depends_on_mkdir_witness:
  "dflt True (opt_logToFile (small_options 2))
   \<and> \<not> existsSync ''/home/u/logs/2024-01-01T00-00-00.000Z'' world_denied
   \<and> mkdir_error world_denied ''/home/u/logs/2024-01-01T00-00-00.000Z'' = Some (IOError ''EACCES'')
   \<and> thrown (PieLogger posix_host session_start (small_options 2) world_denied)
       = Some (IOError ''EACCES'')
   \<and> mkdir_error world0 ''/home/u/logs/2024-01-01T00-00-00.000Z'' = None
   \<and> thrown (PieLogger posix_host session_start (small_options 2) world0) = None
   \<and> fileWriteStream (fst (final (PieLogger posix_host session_start (small_options 2) world0)))
       = Some ''/home/u/logs/2024-01-01T00-00-00.000Z/a-2024-01-01T00-00-00.000Z.log''"
proof -
  let ?d = "''/home/u/logs/2024-01-01T00-00-00.000Z''"
  have on: "dflt True (opt_logToFile (small_options 2))"
    by (simp add: small_options_def)
  have dir: "path_join posix_host [homedir posix_host,
        dflt ''logs'' (opt_logDirectory (small_options 2)), replaceColons session_start] = ?d"
    and logfile: "path_join posix_host
        [?d, opt_loggerName (small_options 2) @ ''-'' @ replaceColons session_start @ ''.log'']
       = ''/home/u/logs/2024-01-01T00-00-00.000Z/a-2024-01-01T00-00-00.000Z.log''"
    by (simp_all add: example_defs replaceColons_def)
  have h: "\<not> existsSync ?d world_denied"
    "mkdir_error world_denied ?d = Some (IOError ''EACCES'')"
    "mkdir_error world0 ?d = None"
    by (simp_all add: existsSync_def world_denied_def world0_def)
  note bad = construction_depends_on_mkdir [OF on, of posix_host session_start world_denied
      "IOError ''EACCES''", unfolded dir logfile]
  note good = construction_depends_on_mkdir [OF on, of posix_host session_start world0
      "IOError ''EACCES''", unfolded dir logfile]
  from bad h(1,2) have 1: "thrown (PieLogger posix_host session_start (small_options 2) world_denied)
       = Some (IOError ''EACCES'')"
    by blast
  from good h(3) have 2: "thrown (PieLogger posix_host session_start (small_options 2) world0) = None"
    and 3: "fileWriteStream (fst (final (PieLogger posix_host session_start (small_options 2) world0)))
       = Some ''/home/u/logs/2024-01-01T00-00-00.000Z/a-2024-01-01T00-00-00.000Z.log''"
    by blast+
  from on h 1 2 3 show ?thesis by blast
qed



end
